theory Spec2Isabelle
  imports Main "HOL-Library.Sublist"
begin

section \<open>The setup script for payment notifications\<close>

text \<open>
  The script \<^verbatim>\<open>scripts/setup_payment_notifications.py\<close> prints four fixed
  source-code templates to standard output. Everything it can observe or change
  is gathered in one record, which every function of the model receives and returns:
  the argument list \<^verbatim>\<open>sys.argv\<close> (a global of module \<^verbatim>\<open>sys\<close>, so every function can
  read it), the environment variables, the file system, the traffic sent to the network,
  the clock, the state of the random number generator, and the text written to standard
  output so far.

  A Python \<^verbatim>\<open>str\<close> is modelled by the bytes of its UTF-8 encoding, which is what
  reaches standard output; the four characters of the source outside ASCII are
  written as their bytes. A failure of the output stream itself is outside the model.
\<close>

record world =
  argv :: "string list"
  environ :: "string \<rightharpoonup> string"
  files :: "string \<rightharpoonup> string"
  network :: "string list"
  clock :: nat
  rng :: nat
  stdout :: string

text \<open>\<^verbatim>\<open>sys.exit(n)\<close> raises \<^verbatim>\<open>SystemExit(n)\<close>, the only exception of the script.\<close>

datatype py_exception = SystemExit int

text \<open>\<^verbatim>\<open>pathlib.Path(s)\<close> wraps the string; constructing it touches no file.\<close>

datatype Path = Path string

text \<open>\<^verbatim>\<open>print(s)\<close> appends \<open>s\<close> and a newline to standard output; \<^verbatim>\<open>print()\<close> is
  \<open>print ''''\<close>.\<close>

definition print :: "string \<Rightarrow> world \<Rightarrow> world" where
  "print s w = w\<lparr>stdout := stdout w @ s @ ''\<newline>''\<rparr>"

text \<open>Python's \<^verbatim>\<open>s * n\<close> on a string.\<close>

definition str_mul :: "string \<Rightarrow> nat \<Rightarrow> string" where
  "str_mul s n = concat (replicate n s)"

definition sys_exit :: "int \<Rightarrow> world \<Rightarrow> (py_exception + unit) \<times> world" where
  "sys_exit n w = (Inl (SystemExit n), w)"

subsection \<open>The template bank\<close>

text \<open>\<^verbatim>\<open>def generate_notification_types()\<close>: Generate notification type constants.\<close>

definition generate_notification_types :: "world \<Rightarrow> string \<times> world" where
\<open>generate_notification_types w = (''// Notification types for payment events
export const PAYMENT_NOTIFICATION_TYPES = {
  PAYMENT_SUCCESS: "payment_success",
  PAYMENT_FAILED: "payment_failed",
  SUBSCRIPTION_RENEWAL: "subscription_renewal",
  SUBSCRIPTION_CANCELLED: "subscription_cancelled",
  REFUND_ISSUED: "refund_issued",
  ACCOUNT_CHANGE: "account_change",
} as const;

export const PAYMENT_NOTIFICATION_ICONS = {
  payment_success: "CheckCircle",
  payment_failed: "AlertCircle",
  subscription_renewal: "Clock",
  subscription_cancelled: "XCircle",
  refund_issued: "RefreshCw",
  account_change: "Settings",
} as const;

export const PAYMENT_NOTIFICATION_COLORS = {
  payment_success: "bg-green-50 border-green-200",
  payment_failed: "bg-red-50 border-red-200",
  subscription_renewal: "bg-blue-50 border-blue-200",
  subscription_cancelled: "bg-yellow-50 border-yellow-200",
  refund_issued: "bg-purple-50 border-purple-200",
  account_change: "bg-gray-50 border-gray-200",
} as const;
'', w)\<close>

text \<open>\<^verbatim>\<open>def generate_database_schema()\<close>: Generate Drizzle database schema for notifications.\<close>

definition generate_database_schema :: "world \<Rightarrow> string \<times> world" where
\<open>generate_database_schema w = (''// Add to drizzle/schema.ts

import { mysqlTable, int, text, timestamp, boolean, varchar, json } from "drizzle-orm/mysql-core";
import { relations } from "drizzle-orm";

export const notifications = mysqlTable("notifications", {
  id: int("id").primaryKey().autoincrement(),
  adminId: int("admin_id").notNull(),
  type: varchar("type", { length: 50 }).notNull(), // payment_success, payment_failed, etc.
  title: text("title").notNull(),
  body: text("body").notNull(),
  linkUrl: text("link_url"),
  metadata: json("metadata"), // Payment-specific data
  read: boolean("read").default(false),
  dismissed: boolean("dismissed").default(false),
  createdAt: timestamp("created_at").defaultNow(),
  updatedAt: timestamp("updated_at").defaultNow().onUpdateNow(),
});

export const adminNotificationPreferences = mysqlTable("admin_notification_preferences", {
  id: int("id").primaryKey().autoincrement(),
  adminId: int("admin_id").notNull().unique(),
  inAppPayments: boolean("in_app_payments").default(true),
  inAppSystemAlerts: boolean("in_app_system_alerts").default(true),
  inAppAccountChanges: boolean("in_app_account_changes").default(true),
  emailPayments: boolean("email_payments").default(false),
  emailSystemAlerts: boolean("email_system_alerts").default(false),
  emailAccountChanges: boolean("email_account_changes").default(false),
  emailDigestFrequency: varchar("email_digest_frequency", { length: 20 }).default("immediate"), // immediate, daily, weekly
  quietHoursEnabled: boolean("quiet_hours_enabled").default(false),
  quietHoursStart: varchar("quiet_hours_start", { length: 5 }), // HH:MM
  quietHoursEnd: varchar("quiet_hours_end", { length: 5 }), // HH:MM
  createdAt: timestamp("created_at").defaultNow(),
  updatedAt: timestamp("updated_at").defaultNow().onUpdateNow(),
});

export const notificationsRelations = relations(notifications, ({ one }) => ({
  admin: one(users, {
    fields: [notifications.adminId],
    references: [users.id],
  }),
}));
'', w)\<close>

text \<open>\<^verbatim>\<open>def generate_webhook_handler()\<close>: Generate Stripe webhook handler template.\<close>

definition generate_webhook_handler :: "world \<Rightarrow> string \<times> world" where
\<open>generate_webhook_handler w = (''// Add to server/_core/stripeWebhook.ts

import Stripe from "stripe";
import { sendPaymentConfirmationNotification, sendPaymentFailureNotification } from "../paymentNotifications";

const stripe = new Stripe(process.env.STRIPE_SECRET_KEY || "");

export async function handleStripeWebhook(req: any, res: any) {
  const sig = req.headers["stripe-signature"];
  const webhookSecret = process.env.STRIPE_WEBHOOK_SECRET;

  if (!sig || !webhookSecret) {
    return res.status(400).json({ error: "Missing signature or webhook secret" });
  }

  let event: Stripe.Event;

  try {
    event = stripe.webhooks.constructEvent(req.body, sig, webhookSecret);
  } catch (error: any) {
    console.error("Webhook signature verification failed:", error.message);
    return res.status(400).json({ error: "Invalid signature" });
  }

  // Handle test events
  if (event.id.startsWith("evt_test_")) {
    console.log("[Webhook] Test event detected, returning verification response");
    return res.json({ verified: true });
  }

  try {
    switch (event.type) {
      case "checkout.session.completed":
        await handleCheckoutSessionCompleted(event.data.object as Stripe.Checkout.Session);
        break;

      case "payment_intent.succeeded":
        await handlePaymentIntentSucceeded(event.data.object as Stripe.PaymentIntent);
        break;

      case "payment_intent.payment_failed":
        await handlePaymentIntentFailed(event.data.object as Stripe.PaymentIntent);
        break;

      case "customer.subscription.created":
        console.log("Subscription created:", event.data.object);
        break;

      case "customer.subscription.updated":
        console.log("Subscription updated:", event.data.object);
        break;

      case "customer.subscription.deleted":
        console.log("Subscription deleted:", event.data.object);
        break;

      case "charge.refunded":
        console.log("Charge refunded:", event.data.object);
        break;

      default:
        console.log("Unhandled event type:", event.type);
    }

    res.json({ received: true });
  } catch (error) {
    console.error("Error processing webhook:", error);
    res.status(500).json({ error: "Webhook processing failed" });
  }
}

async function handleCheckoutSessionCompleted(session: Stripe.Checkout.Session) {
  const metadata = session.metadata || {};
  
  await sendPaymentConfirmationNotification({
    amount: session.amount_total || 0,
    currency: session.currency || "usd",
    tier: metadata.tier || "school",
    billingInterval: metadata.billingInterval || "annual",
    customerEmail: session.customer_email || "",
    customerName: metadata.customerName || "",
    sessionId: session.id,
  });
}

async function handlePaymentIntentSucceeded(intent: Stripe.PaymentIntent) {
  const metadata = intent.metadata || {};
  
  await sendPaymentConfirmationNotification({
    amount: intent.amount,
    currency: intent.currency,
    tier: metadata.tier || "school",
    billingInterval: metadata.billingInterval || "annual",
    customerEmail: metadata.customerEmail || "",
    customerName: metadata.customerName || "",
    sessionId: intent.id,
  });
}

async function handlePaymentIntentFailed(intent: Stripe.PaymentIntent) {
  const metadata = intent.metadata || {};
  
  await sendPaymentFailureNotification({
    amount: intent.amount,
    currency: intent.currency,
    tier: metadata.tier || "school",
    billingInterval: metadata.billingInterval || "annual",
    customerEmail: metadata.customerEmail || "",
    customerName: metadata.customerName || "",
    failureReason: intent.last_payment_error?.message || "Unknown error",
    sessionId: intent.id,
  });
}
'', w)\<close>

text \<open>\<^verbatim>\<open>def generate_notification_helpers()\<close>: Generate payment notification helper functions.\<close>

definition generate_notification_helpers :: "world \<Rightarrow> string \<times> world" where
\<open>generate_notification_helpers w = (''// Add to server/paymentNotifications.ts

import { getDb } from "./db";
import { createAdminNotification, getAdminNotificationPreferences } from "./notifications";

interface PaymentData {
  amount: number;
  currency: string;
  tier: "school" | "district";
  billingInterval: "month" | "year";
  customerEmail: string;
  customerName: string;
  sessionId?: string;
  failureReason?: string;
  renewalDate?: Date;
  subscriptionId?: string;
  cancellationReason?: string;
  refundReason?: string;
  chargeId?: string;
  refundId?: string;
  paymentMethodType?: string;
  last4?: string;
}

export async function sendPaymentConfirmationNotification(data: PaymentData) {
  try {
    const tierLabel = data.tier === "school" ? "School License" : "District License";
    const intervalLabel = data.billingInterval === "month" ? "Monthly" : "Annual";
    const amount = (data.amount / 100).toFixed(2);

    const title = "Payment Confirmed '' @ [CHR 0xE2, CHR 0x9C, CHR 0x93] @ ''";
    const body = `${intervalLabel} ${tierLabel} subscription activated. Amount: $${amount} ${data.currency.toUpperCase()}. Customer: ${data.customerEmail}`;

    const metadata = {
      paymentType: "subscription",
      tier: data.tier,
      amount: data.amount,
      currency: data.currency,
      billingInterval: data.billingInterval,
      customerEmail: data.customerEmail,
      customerName: data.customerName,
      sessionId: data.sessionId,
      timestamp: new Date().toISOString(),
    };

    const linkUrl = `/admin/payments?session=${data.sessionId}`;

    await createAdminNotification({
      type: "payment_success",
      title,
      body,
      linkUrl,
      metadata,
    });

    console.log("Payment confirmation notification sent");
  } catch (error) {
    console.error("Failed to send payment confirmation notification:", error);
  }
}

export async function sendPaymentFailureNotification(data: PaymentData) {
  try {
    const tierLabel = data.tier === "school" ? "School License" : "District License";
    const intervalLabel = data.billingInterval === "month" ? "Monthly" : "Annual";
    const amount = (data.amount / 100).toFixed(2);

    const title = "Payment Failed '' @ [CHR 0xE2, CHR 0x9C, CHR 0x97] @ ''";
    const body = `${intervalLabel} ${tierLabel} subscription failed. Amount: $${amount} ${data.currency.toUpperCase()}. Reason: ${data.failureReason}. Customer: ${data.customerEmail}`;

    const metadata = {
      paymentType: "subscription",
      tier: data.tier,
      amount: data.amount,
      currency: data.currency,
      billingInterval: data.billingInterval,
      customerEmail: data.customerEmail,
      customerName: data.customerName,
      failureReason: data.failureReason,
      sessionId: data.sessionId,
      timestamp: new Date().toISOString(),
    };

    const linkUrl = `/admin/payments?session=${data.sessionId}&status=failed`;

    await createAdminNotification({
      type: "payment_failed",
      title,
      body,
      linkUrl,
      metadata,
    });

    console.log("Payment failure notification sent");
  } catch (error) {
    console.error("Failed to send payment failure notification:", error);
  }
}
'', w)\<close>

subsection \<open>The entry point\<close>

text \<open>\<^verbatim>\<open>def main()\<close>: the argument check, then the report, one \<^verbatim>\<open>print\<close> after the
  other.\<close>

definition main :: "world \<Rightarrow> (py_exception + unit) \<times> world" where
\<open>main w0 =
  (if length (argv w0) < 2 then
     (let w = print ''Usage: python setup_payment_notifications.py <project-path>'' w0
      in sys_exit 1 w)
   else
     (let project_path = Path (argv w0 ! 1);
          w = print ([CHR 0xF0, CHR 0x9F, CHR 0x93, CHR 0xA6] @ '' Payment Notification System Setup'') w0;
          w = print (str_mul ''='' 50) w;
          w = print '''' w;
          w = print ''Generated code snippets:'' w;
          w = print '''' w;
          w = print ''1. Notification Types (shared/notifications.ts)'' w;
          w = print (str_mul ''-'' 50) w;
          (s, w) = generate_notification_types w;
          w = print s w;
          w = print '''' w;
          w = print ''2. Database Schema (drizzle/schema.ts)'' w;
          w = print (str_mul ''-'' 50) w;
          (s, w) = generate_database_schema w;
          w = print s w;
          w = print '''' w;
          w = print ''3. Webhook Handler (server/_core/stripeWebhook.ts)'' w;
          w = print (str_mul ''-'' 50) w;
          (s, w) = generate_webhook_handler w;
          w = print s w;
          w = print '''' w;
          w = print ''4. Notification Helpers (server/paymentNotifications.ts)'' w;
          w = print (str_mul ''-'' 50) w;
          (s, w) = generate_notification_helpers w;
          w = print s w;
          w = print '''' w;
          w = print (str_mul ''='' 50) w;
          w = print ([CHR 0xE2, CHR 0x9C, CHR 0x85] @ '' Code generation complete!'') w;
          w = print '''' w;
          w = print ''Next steps:'' w;
          w = print ''1. Copy the generated code snippets into your project'' w;
          w = print ''2. Run 'pnpm db:push' to apply database migrations'' w;
          w = print ''3. Register the webhook endpoint in your server'' w;
          w = print ''4. Test with Stripe CLI: stripe listen --forward-to localhost:3000/api/stripe/webhook'' w
      in (Inr (), w)))\<close>

text \<open>The module's last lines call \<^verbatim>\<open>main()\<close>; the interpreter turns an uncaught
  \<^verbatim>\<open>SystemExit(n)\<close> into the exit status \<open>n\<close>, and a normal return into \<open>0\<close>.\<close>

definition script :: "world \<Rightarrow> int \<times> world" where
  "script w = (case main w of
                 (Inl (SystemExit n), w') \<Rightarrow> (n, w')
               | (Inr u, w') \<Rightarrow> (0, w'))"


section \<open>Observing a run\<close>

text \<open>The exit status of the process, and the text a run appends to standard output.\<close>

definition exit_status :: "world \<Rightarrow> int" where
  "exit_status w = fst (script w)"

definition written :: "world \<Rightarrow> string" where
  "written w = drop (length (stdout w)) (stdout (snd (script w)))"

text \<open>A world with nothing in it, and the strings the generators return there.\<close>

definition blank_world :: world where
  "blank_world = \<lparr>argv = [], environ = Map.empty, files = Map.empty, network = [],
                   clock = 0, rng = 0, stdout = []\<rparr>"

definition notification_types_text :: string where
  "notification_types_text = fst (generate_notification_types blank_world)"

definition database_schema_text :: string where
  "database_schema_text = fst (generate_database_schema blank_world)"

definition webhook_handler_text :: string where
  "webhook_handler_text = fst (generate_webhook_handler blank_world)"

definition notification_helpers_text :: string where
  "notification_helpers_text = fst (generate_notification_helpers blank_world)"

text \<open>What the report consists of: the argument of every \<^verbatim>\<open>print\<close> of the second branch
  of \<open>main\<close>, in order.\<close>

definition report_items :: "string list" where
\<open>report_items =
  [[CHR 0xF0, CHR 0x9F, CHR 0x93, CHR 0xA6] @ '' Payment Notification System Setup'',
   str_mul ''='' 50,
   '''',
   ''Generated code snippets:'',
   '''',
   ''1. Notification Types (shared/notifications.ts)'',
   str_mul ''-'' 50,
   notification_types_text,
   '''',
   ''2. Database Schema (drizzle/schema.ts)'',
   str_mul ''-'' 50,
   database_schema_text,
   '''',
   ''3. Webhook Handler (server/_core/stripeWebhook.ts)'',
   str_mul ''-'' 50,
   webhook_handler_text,
   '''',
   ''4. Notification Helpers (server/paymentNotifications.ts)'',
   str_mul ''-'' 50,
   notification_helpers_text,
   '''',
   str_mul ''='' 50,
   [CHR 0xE2, CHR 0x9C, CHR 0x85] @ '' Code generation complete!'',
   '''',
   ''Next steps:'',
   ''1. Copy the generated code snippets into your project'',
   ''2. Run 'pnpm db:push' to apply database migrations'',
   ''3. Register the webhook endpoint in your server'',
   ''4. Test with Stripe CLI: stripe listen --forward-to localhost:3000/api/stripe/webhook'']\<close>

definition unlines :: "string list \<Rightarrow> string" where
  "unlines items = concat (map (\<lambda>s. s @ ''\<newline>'') items)"

definition usage_line :: string where
  "usage_line = ''Usage: python setup_payment_notifications.py <project-path>''"


text \<open>How often a pattern occurs in a string: the number of suffixes that start with it.\<close>

definition count_occurrences :: "string \<Rightarrow> string \<Rightarrow> nat" where
  "count_occurrences pat s = length (filter (prefix pat) (suffixes s))"


text \<open>The lines of the webhook handler template.\<close>

definition webhook_handler_lines :: "string list" where
\<open>webhook_handler_lines =
  [''// Add to server/_core/stripeWebhook.ts'',
   '''',
   ''import Stripe from "stripe";'',
   ''import { sendPaymentConfirmationNotification, sendPaymentFailureNotification } from "../paymentNotifications";'',
   '''',
   ''const stripe = new Stripe(process.env.STRIPE_SECRET_KEY || "");'',
   '''',
   ''export async function handleStripeWebhook(req: any, res: any) {'',
   ''  const sig = req.headers["stripe-signature"];'',
   ''  const webhookSecret = process.env.STRIPE_WEBHOOK_SECRET;'',
   '''',
   ''  if (!sig || !webhookSecret) {'',
   ''    return res.status(400).json({ error: "Missing signature or webhook secret" });'',
   ''  }'',
   '''',
   ''  let event: Stripe.Event;'',
   '''',
   ''  try {'',
   ''    event = stripe.webhooks.constructEvent(req.body, sig, webhookSecret);'',
   ''  } catch (error: any) {'',
   ''    console.error("Webhook signature verification failed:", error.message);'',
   ''    return res.status(400).json({ error: "Invalid signature" });'',
   ''  }'',
   '''',
   ''  // Handle test events'',
   ''  if (event.id.startsWith("evt_test_")) {'',
   ''    console.log("[Webhook] Test event detected, returning verification response");'',
   ''    return res.json({ verified: true });'',
   ''  }'',
   '''',
   ''  try {'',
   ''    switch (event.type) {'',
   ''      case "checkout.session.completed":'',
   ''        await handleCheckoutSessionCompleted(event.data.object as Stripe.Checkout.Session);'',
   ''        break;'',
   '''',
   ''      case "payment_intent.succeeded":'',
   ''        await handlePaymentIntentSucceeded(event.data.object as Stripe.PaymentIntent);'',
   ''        break;'',
   '''',
   ''      case "payment_intent.payment_failed":'',
   ''        await handlePaymentIntentFailed(event.data.object as Stripe.PaymentIntent);'',
   ''        break;'',
   '''',
   ''      case "customer.subscription.created":'',
   ''        console.log("Subscription created:", event.data.object);'',
   ''        break;'',
   '''',
   ''      case "customer.subscription.updated":'',
   ''        console.log("Subscription updated:", event.data.object);'',
   ''        break;'',
   '''',
   ''      case "customer.subscription.deleted":'',
   ''        console.log("Subscription deleted:", event.data.object);'',
   ''        break;'',
   '''',
   ''      case "charge.refunded":'',
   ''        console.log("Charge refunded:", event.data.object);'',
   ''        break;'',
   '''',
   ''      default:'',
   ''        console.log("Unhandled event type:", event.type);'',
   ''    }'',
   '''',
   ''    res.json({ received: true });'',
   ''  } catch (error) {'',
   ''    console.error("Error processing webhook:", error);'',
   ''    res.status(500).json({ error: "Webhook processing failed" });'',
   ''  }'',
   ''}'',
   '''',
   ''async function handleCheckoutSessionCompleted(session: Stripe.Checkout.Session) {'',
   ''  const metadata = session.metadata || {};'',
   ''  '',
   ''  await sendPaymentConfirmationNotification({'',
   ''    amount: session.amount_total || 0,'',
   ''    currency: session.currency || "usd",'',
   ''    tier: metadata.tier || "school",'',
   ''    billingInterval: metadata.billingInterval || "annual",'',
   ''    customerEmail: session.customer_email || "",'',
   ''    customerName: metadata.customerName || "",'',
   ''    sessionId: session.id,'',
   ''  });'',
   ''}'',
   '''',
   ''async function handlePaymentIntentSucceeded(intent: Stripe.PaymentIntent) {'',
   ''  const metadata = intent.metadata || {};'',
   ''  '',
   ''  await sendPaymentConfirmationNotification({'',
   ''    amount: intent.amount,'',
   ''    currency: intent.currency,'',
   ''    tier: metadata.tier || "school",'',
   ''    billingInterval: metadata.billingInterval || "annual",'',
   ''    customerEmail: metadata.customerEmail || "",'',
   ''    customerName: metadata.customerName || "",'',
   ''    sessionId: intent.id,'',
   ''  });'',
   ''}'',
   '''',
   ''async function handlePaymentIntentFailed(intent: Stripe.PaymentIntent) {'',
   ''  const metadata = intent.metadata || {};'',
   ''  '',
   ''  await sendPaymentFailureNotification({'',
   ''    amount: intent.amount,'',
   ''    currency: intent.currency,'',
   ''    tier: metadata.tier || "school",'',
   ''    billingInterval: metadata.billingInterval || "annual",'',
   ''    customerEmail: metadata.customerEmail || "",'',
   ''    customerName: metadata.customerName || "",'',
   ''    failureReason: intent.last_payment_error?.message || "Unknown error",'',
   ''    sessionId: intent.id,'',
   ''  });'',
   ''}'']\<close>


text \<open>The world of an invocation with the given argument list and nothing else.\<close>

definition invocation :: "string list \<Rightarrow> world" where
  "invocation args = blank_world\<lparr>argv := args\<rparr>"


section \<open>The generators are constant\<close>

lemma generate_notification_types_const:
  "generate_notification_types w = (notification_types_text, w)"
  by (simp only: notification_types_text_def generate_notification_types_def fst_conv)

lemma generate_database_schema_const:
  "generate_database_schema w = (database_schema_text, w)"
  by (simp only: database_schema_text_def generate_database_schema_def fst_conv)

lemma generate_webhook_handler_const:
  "generate_webhook_handler w = (webhook_handler_text, w)"
  by (simp only: webhook_handler_text_def generate_webhook_handler_def fst_conv)

lemma generate_notification_helpers_const:
  "generate_notification_helpers w = (notification_helpers_text, w)"
  by (simp only: notification_helpers_text_def generate_notification_helpers_def fst_conv)

lemmas generators_const =
  generate_notification_types_const generate_database_schema_const
  generate_webhook_handler_const generate_notification_helpers_const

section \<open>The two branches of the entry point\<close>

lemma print_stdout: "print s w = w\<lparr>stdout := stdout w @ unlines [s]\<rparr>"
  by (simp add: print_def unlines_def)

lemma unlines_append: "unlines (xs @ ys) = unlines xs @ unlines ys"
  by (simp add: unlines_def)

lemma print_unlines:
  "print s (w\<lparr>stdout := stdout w @ unlines items\<rparr>) = w\<lparr>stdout := stdout w @ unlines (items @ [s])\<rparr>"
  by (simp add: print_def unlines_def)

lemma main_usage:
  assumes "length (argv w) < 2"
  shows "main w = (Inl (SystemExit 1), w\<lparr>stdout := stdout w @ unlines [usage_line]\<rparr>)"
  using assms by (simp add: main_def sys_exit_def print_stdout usage_line_def)

lemma main_report:
  assumes "2 \<le> length (argv w)"
  shows "main w = (Inr (), w\<lparr>stdout := stdout w @ unlines report_items\<rparr>)"
proof -
  have "\<not> length (argv w) < 2"
    using assms by simp
  then show ?thesis
    by (simp only: main_def Let_def generators_const prod.case if_False
          print_stdout[of _ w] print_unlines append.simps report_items_def)
qed

lemma script_usage:
  "length (argv w) < 2 \<Longrightarrow> script w = (1, w\<lparr>stdout := stdout w @ unlines [usage_line]\<rparr>)"
  by (simp add: script_def main_usage)

lemma script_report:
  "2 \<le> length (argv w) \<Longrightarrow> script w = (0, w\<lparr>stdout := stdout w @ unlines report_items\<rparr>)"
  by (simp add: script_def main_report)

lemma exit_status_cases:
  "exit_status w = (if length (argv w) < 2 then 1 else 0)"
  by (simp add: exit_status_def script_usage script_report)

lemma written_cases:
  "written w = (if length (argv w) < 2 then unlines [usage_line] else unlines report_items)"
  by (simp add: written_def script_usage script_report)

lemma script_frame:
  "script w = (exit_status w, w\<lparr>stdout := stdout w @ written w\<rparr>)"
  by (simp add: exit_status_cases written_cases script_usage script_report)


section \<open>Substrings and lines\<close>

lemma sublist_at:
  assumes "take (length pat) (drop n s) = pat"
  shows "sublist pat s"
proof -
  have "s = take n s @ drop n s"
    by simp
  also have "drop n s = pat @ drop (length pat) (drop n s)"
    using assms by (metis append_take_drop_id)
  finally show ?thesis
    by (metis sublist_appendI)
qed

lemma sublist_unlines:
  assumes "k < length ls" and "sublist pat (ls ! k)"
  shows "sublist pat (unlines ls)"
proof -
  obtain a b where line: "ls ! k = a @ pat @ b"
    using assms(2) by (auto simp: sublist_def)
  have whole: "take k ls @ [ls ! k] @ drop (Suc k) ls = ls"
    using assms(1) by (simp add: id_take_nth_drop[symmetric])
  have "unlines (take k ls @ [ls ! k] @ drop (Suc k) ls) =
        (unlines (take k ls) @ a) @ pat @ (b @ ''\<newline>'' @ unlines (drop (Suc k) ls))"
    by (simp add: unlines_def line)
  then have "unlines ls = (unlines (take k ls) @ a) @ pat @ (b @ ''\<newline>'' @ unlines (drop (Suc k) ls))"
    by (simp only: whole)
  then show ?thesis
    by (metis sublist_appendI)
qed

lemma count_occurrences_Nil: "count_occurrences (p # ps) [] = 0"
  by (simp add: count_occurrences_def)

lemma count_occurrences_Cons:
  "count_occurrences pat (c # cs) = (if prefix pat (c # cs) then 1 else 0) + count_occurrences pat cs"
  by (simp add: count_occurrences_def)

lemma prefix_before_newline:
  assumes "CHR ''\<newline>'' \<notin> set pat"
  shows "prefix pat (u @ CHR ''\<newline>'' # rest) \<longleftrightarrow> prefix pat u"
proof
  assume "prefix pat (u @ CHR ''\<newline>'' # rest)"
  then consider "prefix pat u" | vs where "pat = u @ vs" and "prefix vs (CHR ''\<newline>'' # rest)"
    by (auto simp: prefix_append)
  then show "prefix pat u"
  proof cases
    case 1
    then show ?thesis .
  next
    case 2
    then show ?thesis
      using assms by (cases vs) auto
  qed
next
  assume "prefix pat u"
  then show "prefix pat (u @ CHR ''\<newline>'' # rest)"
    by (simp add: prefix_prefix)
qed

lemma count_occurrences_line:
  assumes "pat \<noteq> []" and "CHR ''\<newline>'' \<notin> set pat"
  shows "count_occurrences pat (l @ CHR ''\<newline>'' # rest) = count_occurrences pat l + count_occurrences pat rest"
proof (induction l)
  case Nil
  obtain p ps where pat: "pat = p # ps"
    using assms(1) by (cases pat) auto
  then have "p \<noteq> CHR ''\<newline>''"
    using assms(2) by auto
  then show ?case
    by (simp add: pat count_occurrences_Cons count_occurrences_Nil)
next
  case (Cons c l)
  have "prefix pat ((c # l) @ CHR ''\<newline>'' # rest) \<longleftrightarrow> prefix pat (c # l)"
    using assms(2) by (rule prefix_before_newline)
  then show ?case
    using Cons.IH by (simp add: count_occurrences_Cons)
qed

lemma count_occurrences_unlines:
  assumes "pat \<noteq> []" and "CHR ''\<newline>'' \<notin> set pat"
  shows "count_occurrences pat (unlines ls) = sum_list (map (count_occurrences pat) ls)"
proof (induction ls)
  case Nil
  then show ?case
    using assms(1) by (cases pat) (simp_all add: unlines_def count_occurrences_Nil)
next
  case (Cons l ls)
  have "unlines (l # ls) = l @ CHR ''\<newline>'' # unlines ls"
    by (simp add: unlines_def)
  then show ?case
    using Cons.IH count_occurrences_line[OF assms] by simp
qed


section \<open>The text of the templates\<close>

lemma webhook_handler_by_lines:
  "fst (generate_webhook_handler w) = unlines webhook_handler_lines"
  by (simp add: generate_webhook_handler_def webhook_handler_lines_def unlines_def)

lemma webhook_count_case:
  "count_occurrences ''case'' (unlines webhook_handler_lines) = 7"
  by (simp add: count_occurrences_unlines webhook_handler_lines_def
        count_occurrences_Cons count_occurrences_Nil)

lemma webhook_count_default:
  "count_occurrences ''default'' (unlines webhook_handler_lines) = 1"
  by (simp add: count_occurrences_unlines webhook_handler_lines_def
        count_occurrences_Cons count_occurrences_Nil)

lemma webhook_case_1:
  \<open>sublist ''case "checkout.session.completed":'' (unlines webhook_handler_lines)\<close>
  apply (rule sublist_unlines[where k=32])
   apply (simp add: webhook_handler_lines_def)
  apply (rule sublist_at[where n=6])
  apply (simp add: webhook_handler_lines_def)
  done

lemma webhook_case_2:
  \<open>sublist ''case "payment_intent.succeeded":'' (unlines webhook_handler_lines)\<close>
  apply (rule sublist_unlines[where k=36])
   apply (simp add: webhook_handler_lines_def)
  apply (rule sublist_at[where n=6])
  apply (simp add: webhook_handler_lines_def)
  done

lemma webhook_case_3:
  \<open>sublist ''case "payment_intent.payment_failed":'' (unlines webhook_handler_lines)\<close>
  apply (rule sublist_unlines[where k=40])
   apply (simp add: webhook_handler_lines_def)
  apply (rule sublist_at[where n=6])
  apply (simp add: webhook_handler_lines_def)
  done

lemma webhook_case_4:
  \<open>sublist ''case "customer.subscription.created":'' (unlines webhook_handler_lines)\<close>
  apply (rule sublist_unlines[where k=44])
   apply (simp add: webhook_handler_lines_def)
  apply (rule sublist_at[where n=6])
  apply (simp add: webhook_handler_lines_def)
  done

lemma webhook_case_5:
  \<open>sublist ''case "customer.subscription.updated":'' (unlines webhook_handler_lines)\<close>
  apply (rule sublist_unlines[where k=48])
   apply (simp add: webhook_handler_lines_def)
  apply (rule sublist_at[where n=6])
  apply (simp add: webhook_handler_lines_def)
  done

lemma webhook_case_6:
  \<open>sublist ''case "customer.subscription.deleted":'' (unlines webhook_handler_lines)\<close>
  apply (rule sublist_unlines[where k=52])
   apply (simp add: webhook_handler_lines_def)
  apply (rule sublist_at[where n=6])
  apply (simp add: webhook_handler_lines_def)
  done

lemma webhook_case_7:
  \<open>sublist ''case "charge.refunded":'' (unlines webhook_handler_lines)\<close>
  apply (rule sublist_unlines[where k=56])
   apply (simp add: webhook_handler_lines_def)
  apply (rule sublist_at[where n=6])
  apply (simp add: webhook_handler_lines_def)
  done

lemma webhook_default_branch:
  "sublist ''default:'' (unlines webhook_handler_lines)"
  apply (rule sublist_unlines[where k=60])
   apply (simp add: webhook_handler_lines_def)
  apply (rule sublist_at[where n=6])
  apply (simp add: webhook_handler_lines_def)
  done

lemma schema_has_notifications:
  "sublist ''notifications'' (fst (generate_database_schema w))"
  by (rule sublist_at[where n=183]) (simp add: generate_database_schema_def)

lemma schema_has_preferences:
  "sublist ''adminNotificationPreferences'' (fst (generate_database_schema w))"
  by (rule sublist_at[where n=779]) (simp add: generate_database_schema_def)

lemma webhook_has_checkout:
  "sublist ''checkout.session.completed'' (fst (generate_webhook_handler w))"
  by (rule sublist_at[where n=1060]) (simp add: generate_webhook_handler_def)

lemma types_has_types_table:
  "sublist ''PAYMENT_NOTIFICATION_TYPES'' (fst (generate_notification_types w))"
  by (rule sublist_at[where n=54]) (simp add: generate_notification_types_def)

lemma types_has_icons_table:
  "sublist ''PAYMENT_NOTIFICATION_ICONS'' (fst (generate_notification_types w))"
  by (rule sublist_at[where n=355]) (simp add: generate_notification_types_def)

lemma types_has_colors_table:
  "sublist ''PAYMENT_NOTIFICATION_COLORS'' (fst (generate_notification_types w))"
  by (rule sublist_at[where n=609]) (simp add: generate_notification_types_def)

lemma helpers_has_confirmation:
  "sublist ''sendPaymentConfirmationNotification'' (fst (generate_notification_helpers w))"
  by (rule sublist_at[where n=612]) (simp add: generate_notification_helpers_def)

lemma helpers_has_failure:
  "sublist ''sendPaymentFailureNotification'' (fst (generate_notification_helpers w))"
  by (rule sublist_at[where n=1832]) (simp add: generate_notification_helpers_def)

lemma notification_types_nonempty: "fst (generate_notification_types w) \<noteq> []"
  by (simp add: generate_notification_types_def)

lemma database_schema_nonempty: "fst (generate_database_schema w) \<noteq> []"
  by (simp add: generate_database_schema_def)

lemma webhook_handler_nonempty: "fst (generate_webhook_handler w) \<noteq> []"
  by (simp add: generate_webhook_handler_def)

lemma notification_helpers_nonempty: "fst (generate_notification_helpers w) \<noteq> []"
  by (simp add: generate_notification_helpers_def)


section \<open>The claims of the specification\<close>

text \<open>
  C1. When no argument follows the program name, the script prints the usage message,
  one line that contains the program name \<^verbatim>\<open>setup_payment_notifications\<close>, to standard
  output and ends with exit status 1. With at least one argument it does not take this
  path: \<open>main\<close> returns without raising, the exit status is 0 and the text written does
  not start with the usage message.
\<close>

theorem C1_missing_argument_usage_exit_1:
  "(length (argv w) < 2 \<longrightarrow>
      exit_status w = 1 \<and>
      stdout (snd (script w)) = stdout w @ written w \<and>
      (\<exists>line. written w = line @ ''\<newline>'' \<and> CHR ''\<newline>'' \<notin> set line \<and>
         prefix ''Usage:'' line \<and> sublist ''setup_payment_notifications'' line)) \<and>
   (2 \<le> length (argv w) \<longrightarrow>
      fst (main w) = Inr () \<and> exit_status w = 0 \<and> \<not> prefix ''Usage:'' (written w))"
proof (intro conjI impI)
  assume short: "length (argv w) < 2"
  show "exit_status w = 1"
    using short by (simp add: exit_status_cases)
  show "stdout (snd (script w)) = stdout w @ written w"
    by (simp add: script_frame)
  have "written w = usage_line @ ''\<newline>''"
    using short by (simp add: written_cases unlines_def)
  moreover have "CHR ''\<newline>'' \<notin> set usage_line"
    by (simp add: usage_line_def)
  moreover have "prefix ''Usage:'' usage_line"
    by (simp add: usage_line_def)
  moreover have "sublist ''setup_payment_notifications'' usage_line"
    by (rule sublist_at[where n=14]) (simp add: usage_line_def)
  ultimately show "\<exists>line. written w = line @ ''\<newline>'' \<and> CHR ''\<newline>'' \<notin> set line \<and>
      prefix ''Usage:'' line \<and> sublist ''setup_payment_notifications'' line"
    by blast
next
  assume args: "2 \<le> length (argv w)"
  show "fst (main w) = Inr ()"
    using args by (simp add: main_report)
  show "exit_status w = 0"
    using args by (simp add: exit_status_cases)
  have "\<not> prefix ''Usage:'' (unlines report_items)"
    by (simp add: unlines_def report_items_def)
  then show "\<not> prefix ''Usage:'' (written w)"
    using args by (simp add: written_cases)
qed

theorem C1_missing_argument_usage_exit_1_witness:
  "length (argv (invocation [''setup_payment_notifications.py''])) < 2 \<and>
   exit_status (invocation [''setup_payment_notifications.py'']) = 1 \<and>
   2 \<le> length (argv (invocation [''setup_payment_notifications.py'', ''/tmp/a''])) \<and>
   exit_status (invocation [''setup_payment_notifications.py'', ''/tmp/a'']) = 0"
  using C1_missing_argument_usage_exit_1[of "invocation [''setup_payment_notifications.py'']"]
    C1_missing_argument_usage_exit_1[of "invocation [''setup_payment_notifications.py'', ''/tmp/a'']"]
  by (simp add: invocation_def)

text \<open>
  C2. With exactly one argument, whatever string it is (the path need not exist), the
  exit status is 0 and the text written contains the four section headers in this order:
  notification types, database schema, webhook handler, notification helpers.
\<close>

theorem C2_one_argument_four_headers_in_order:
  assumes "argv w = [prog, path]"
  shows "exit_status w = 0 \<and>
    stdout (snd (script w)) = stdout w @ written w \<and>
    (\<exists>a b c d e. written w =
       a @ ''1. Notification Types (shared/notifications.ts)'' @
       b @ ''2. Database Schema (drizzle/schema.ts)'' @
       c @ ''3. Webhook Handler (server/_core/stripeWebhook.ts)'' @
       d @ ''4. Notification Helpers (server/paymentNotifications.ts)'' @ e)"
proof -
  have args: "2 \<le> length (argv w)"
    using assms by simp
  have "unlines report_items =
      unlines (take 5 report_items) @ ''1. Notification Types (shared/notifications.ts)'' @
      (''\<newline>'' @ unlines (take 3 (drop 6 report_items))) @ ''2. Database Schema (drizzle/schema.ts)'' @
      (''\<newline>'' @ unlines (take 3 (drop 10 report_items))) @ ''3. Webhook Handler (server/_core/stripeWebhook.ts)'' @
      (''\<newline>'' @ unlines (take 3 (drop 14 report_items))) @ ''4. Notification Helpers (server/paymentNotifications.ts)'' @
      (''\<newline>'' @ unlines (drop 18 report_items))"
    by (simp add: unlines_def report_items_def)
  then have "\<exists>a b c d e. unlines report_items =
       a @ ''1. Notification Types (shared/notifications.ts)'' @
       b @ ''2. Database Schema (drizzle/schema.ts)'' @
       c @ ''3. Webhook Handler (server/_core/stripeWebhook.ts)'' @
       d @ ''4. Notification Helpers (server/paymentNotifications.ts)'' @ e"
    by (intro exI)
  then show ?thesis
    using args by (simp add: exit_status_cases written_cases script_frame)
qed

theorem C2_one_argument_four_headers_in_order_witness:
  "argv (invocation [''setup_payment_notifications.py'', ''/no/such/path'']) =
     [''setup_payment_notifications.py'', ''/no/such/path''] \<and>
   files (invocation [''setup_payment_notifications.py'', ''/no/such/path'']) ''/no/such/path'' = None \<and>
   exit_status (invocation [''setup_payment_notifications.py'', ''/no/such/path'']) = 0"
  using C2_one_argument_four_headers_in_order[of
      "invocation [''setup_payment_notifications.py'', ''/no/such/path'']"
      "''setup_payment_notifications.py''" "''/no/such/path''"]
  by (simp add: invocation_def blank_world_def)

text \<open>
  C3. Two runs with the same argument list end with the same exit status and write the
  same text, whatever the clock, the random number generator, the environment, the files,
  the network and the earlier output are in the two runs.
\<close>

theorem C3_same_arguments_same_output:
  assumes "argv w1 = argv w2"
  shows "exit_status w1 = exit_status w2 \<and> written w1 = written w2"
  using assms by (simp add: exit_status_cases written_cases)

theorem C3_same_arguments_same_output_witness:
  "argv (invocation [''setup_payment_notifications.py'', ''/tmp/a'']) =
     argv ((invocation [''setup_payment_notifications.py'', ''/tmp/a''])
             \<lparr>environ := [''HOME'' \<mapsto> ''/root''], clock := 1762190000, rng := 42\<rparr>) \<and>
   clock (invocation [''setup_payment_notifications.py'', ''/tmp/a'']) \<noteq>
     clock ((invocation [''setup_payment_notifications.py'', ''/tmp/a''])
             \<lparr>environ := [''HOME'' \<mapsto> ''/root''], clock := 1762190000, rng := 42\<rparr>) \<and>
   written (invocation [''setup_payment_notifications.py'', ''/tmp/a'']) =
     written ((invocation [''setup_payment_notifications.py'', ''/tmp/a''])
             \<lparr>environ := [''HOME'' \<mapsto> ''/root''], clock := 1762190000, rng := 42\<rparr>) \<and>
   exit_status (invocation [''setup_payment_notifications.py'', ''/tmp/a'']) =
     exit_status ((invocation [''setup_payment_notifications.py'', ''/tmp/a''])
             \<lparr>environ := [''HOME'' \<mapsto> ''/root''], clock := 1762190000, rng := 42\<rparr>)"
  using C3_same_arguments_same_output[of
      "invocation [''setup_payment_notifications.py'', ''/tmp/a'']"
      "(invocation [''setup_payment_notifications.py'', ''/tmp/a''])
         \<lparr>environ := [''HOME'' \<mapsto> ''/root''], clock := 1762190000, rng := 42\<rparr>"]
  by (simp add: invocation_def blank_world_def)

text \<open>
  C4. Two invocations that each supply at least one argument write the same text and end
  with the same exit status, whatever the arguments are: the path is not part of the
  output.
\<close>

theorem C4_output_independent_of_argument_value:
  assumes "2 \<le> length (argv w1)" and "2 \<le> length (argv w2)"
  shows "written w1 = written w2 \<and> exit_status w1 = exit_status w2"
  using assms by (simp add: exit_status_cases written_cases)

theorem C4_output_independent_of_argument_value_witness:
  "2 \<le> length (argv (invocation [''setup_payment_notifications.py'', ''/tmp/a''])) \<and>
   2 \<le> length (argv (invocation [''setup_payment_notifications.py'', ''/tmp/b''])) \<and>
   argv (invocation [''setup_payment_notifications.py'', ''/tmp/a'']) \<noteq>
     argv (invocation [''setup_payment_notifications.py'', ''/tmp/b'']) \<and>
   written (invocation [''setup_payment_notifications.py'', ''/tmp/a'']) =
     written (invocation [''setup_payment_notifications.py'', ''/tmp/b''])"
  using C4_output_independent_of_argument_value[of
      "invocation [''setup_payment_notifications.py'', ''/tmp/a'']"
      "invocation [''setup_payment_notifications.py'', ''/tmp/b'']"]
  by (simp add: invocation_def)

text \<open>
  C5. A run changes nothing but standard output, to which it appends: the environment,
  the files (at every path, the supplied one included), the network traffic, the clock
  and the random number generator are as before. Nor does it read them: with another
  environment, other files and other network traffic the exit status and the text
  written are the same.
\<close>

theorem C5_only_effect_is_standard_output:
  "snd (script w) = w\<lparr>stdout := stdout w @ written w\<rparr> \<and>
   environ (snd (script w)) = environ w \<and>
   files (snd (script w)) = files w \<and>
   network (snd (script w)) = network w \<and>
   exit_status (w\<lparr>environ := e, files := f, network := n\<rparr>) = exit_status w \<and>
   written (w\<lparr>environ := e, files := f, network := n\<rparr>) = written w"
  by (simp add: script_frame exit_status_cases written_cases)

text \<open>
  C6. Arguments beyond the first are ignored: a run with further arguments ends with the
  same exit status and writes the same text as the run with the first argument alone.
\<close>

theorem C6_extra_arguments_ignored:
  "exit_status (w\<lparr>argv := prog # path # extra # rest\<rparr>) = exit_status (w\<lparr>argv := [prog, path]\<rparr>) \<and>
   written (w\<lparr>argv := prog # path # extra # rest\<rparr>) = written (w\<lparr>argv := [prog, path]\<rparr>)"
  by (simp add: exit_status_cases written_cases)

text \<open>
  C7. Each of the four generators takes nothing but the state of the process, leaves it
  as it is, and returns one fixed string whatever that state is (the argument list and
  with it the path included).
\<close>

theorem C7_generators_pure_and_constant:
  "(\<forall>w. snd (generate_notification_types w) = w) \<and>
   (\<forall>w w'. fst (generate_notification_types w) = fst (generate_notification_types w')) \<and>
   (\<forall>w. snd (generate_database_schema w) = w) \<and>
   (\<forall>w w'. fst (generate_database_schema w) = fst (generate_database_schema w')) \<and>
   (\<forall>w. snd (generate_webhook_handler w) = w) \<and>
   (\<forall>w w'. fst (generate_webhook_handler w) = fst (generate_webhook_handler w')) \<and>
   (\<forall>w. snd (generate_notification_helpers w) = w) \<and>
   (\<forall>w w'. fst (generate_notification_helpers w) = fst (generate_notification_helpers w'))"
  by (simp add: generators_const)

text \<open>
  C8. Each of the four generated strings is non-empty and contains its markers: the
  notification types contain the names of the three constant tables
  \<^verbatim>\<open>PAYMENT_NOTIFICATION_TYPES\<close>, \<^verbatim>\<open>PAYMENT_NOTIFICATION_ICONS\<close> and
  \<^verbatim>\<open>PAYMENT_NOTIFICATION_COLORS\<close>; the database schema contains \<^verbatim>\<open>notifications\<close> and
  \<^verbatim>\<open>adminNotificationPreferences\<close>; the webhook handler contains
  \<^verbatim>\<open>checkout.session.completed\<close>; the notification helpers contain the names of the two
  helper functions \<^verbatim>\<open>sendPaymentConfirmationNotification\<close> and
  \<^verbatim>\<open>sendPaymentFailureNotification\<close>.
\<close>

theorem C8_templates_nonempty_with_markers:
  "fst (generate_notification_types w) \<noteq> [] \<and>
   fst (generate_database_schema w) \<noteq> [] \<and>
   fst (generate_webhook_handler w) \<noteq> [] \<and>
   fst (generate_notification_helpers w) \<noteq> [] \<and>
   sublist ''PAYMENT_NOTIFICATION_TYPES'' (fst (generate_notification_types w)) \<and>
   sublist ''PAYMENT_NOTIFICATION_ICONS'' (fst (generate_notification_types w)) \<and>
   sublist ''PAYMENT_NOTIFICATION_COLORS'' (fst (generate_notification_types w)) \<and>
   sublist ''notifications'' (fst (generate_database_schema w)) \<and>
   sublist ''adminNotificationPreferences'' (fst (generate_database_schema w)) \<and>
   sublist ''checkout.session.completed'' (fst (generate_webhook_handler w)) \<and>
   sublist ''sendPaymentConfirmationNotification'' (fst (generate_notification_helpers w)) \<and>
   sublist ''sendPaymentFailureNotification'' (fst (generate_notification_helpers w))"
  by (intro conjI notification_types_nonempty database_schema_nonempty
      webhook_handler_nonempty notification_helpers_nonempty types_has_types_table
      types_has_icons_table types_has_colors_table schema_has_notifications
      schema_has_preferences webhook_has_checkout helpers_has_confirmation
      helpers_has_failure)

text \<open>
  C9. When no argument follows the program name, the usage line is all that is written
  to standard output: one line, and nothing of the report.
\<close>

theorem C9_usage_line_is_the_only_output:
  assumes "length (argv w) < 2"
  shows "written w = ''Usage: python setup_payment_notifications.py <project-path>\<newline>'' \<and>
    snd (script w) =
      w\<lparr>stdout := stdout w @ ''Usage: python setup_payment_notifications.py <project-path>\<newline>''\<rparr> \<and>
    length (filter (\<lambda>c. c = CHR ''\<newline>'') (written w)) = 1"
proof -
  have "written w = ''Usage: python setup_payment_notifications.py <project-path>\<newline>''"
    using assms by (simp add: written_cases unlines_def usage_line_def)
  then show ?thesis
    by (simp add: script_frame)
qed

theorem C9_usage_line_is_the_only_output_witness:
  "length (argv (invocation [''setup_payment_notifications.py''])) < 2 \<and>
   written (invocation [''setup_payment_notifications.py'']) =
     ''Usage: python setup_payment_notifications.py <project-path>\<newline>''"
  using C9_usage_line_is_the_only_output[of "invocation [''setup_payment_notifications.py'']"]
  by (simp add: invocation_def)

text \<open>
  C10. In the string of the webhook handler the word \<^verbatim>\<open>case\<close> occurs exactly seven
  times, and the seven case labels for \<^verbatim>\<open>checkout.session.completed\<close>,
  \<^verbatim>\<open>payment_intent.succeeded\<close>, \<^verbatim>\<open>payment_intent.payment_failed\<close>,
  \<^verbatim>\<open>customer.subscription.created\<close>, \<^verbatim>\<open>customer.subscription.updated\<close>,
  \<^verbatim>\<open>customer.subscription.deleted\<close> and \<^verbatim>\<open>charge.refunded\<close> are in it; the word
  \<^verbatim>\<open>default\<close> occurs exactly once, as the branch \<^verbatim>\<open>default:\<close>.
\<close>

theorem C10_seven_case_labels_one_default:
\<open>count_occurrences ''case'' (fst (generate_webhook_handler w)) = 7 \<and>
  sublist ''case "checkout.session.completed":'' (fst (generate_webhook_handler w)) \<and>
  sublist ''case "payment_intent.succeeded":'' (fst (generate_webhook_handler w)) \<and>
  sublist ''case "payment_intent.payment_failed":'' (fst (generate_webhook_handler w)) \<and>
  sublist ''case "customer.subscription.created":'' (fst (generate_webhook_handler w)) \<and>
  sublist ''case "customer.subscription.updated":'' (fst (generate_webhook_handler w)) \<and>
  sublist ''case "customer.subscription.deleted":'' (fst (generate_webhook_handler w)) \<and>
  sublist ''case "charge.refunded":'' (fst (generate_webhook_handler w)) \<and>
  count_occurrences ''default'' (fst (generate_webhook_handler w)) = 1 \<and>
  sublist ''default:'' (fst (generate_webhook_handler w))\<close>
  unfolding webhook_handler_by_lines
  by (intro conjI webhook_count_case webhook_count_default webhook_case_1 webhook_case_2
      webhook_case_3 webhook_case_4 webhook_case_5 webhook_case_6 webhook_case_7
      webhook_default_branch)


end
